theory Spec2Isabelle
  imports Main "HOL-Library.Sublist"
begin

section \<open>Python string primitives\<close>

text \<open>
  Text is modelled as \<open>string\<close> over the ASCII code points, which is what the SQL
  handled by the three applications consists of. The character classes are the ones
  Python uses on that range: \<open>str.isspace\<close> (also the class \<open>\s\<close> of \<open>re\<close>) holds for
  the code points 9 to 13 and 28 to 32, and \<open>\w\<close> for digits, letters and the
  underscore. Bytes above 127 are outside the modelled alphabet: they are treated as
  caseless symbols that are neither blank nor part of a word.
\<close>

definition is_space :: "char \<Rightarrow> bool" where
  "is_space c = (let n = (of_char c :: nat) in (9 \<le> n \<and> n \<le> 13) \<or> (28 \<le> n \<and> n \<le> 32))"

definition is_word :: "char \<Rightarrow> bool" where
  "is_word c = (let n = (of_char c :: nat) in
     (48 \<le> n \<and> n \<le> 57) \<or> (65 \<le> n \<and> n \<le> 90) \<or> n = 95 \<or> (97 \<le> n \<and> n \<le> 122))"

definition upper_char :: "char \<Rightarrow> char" where
  "upper_char c = (let n = (of_char c :: nat) in if 97 \<le> n \<and> n \<le> 122 then char_of (n - 32) else c)"

definition lower_char :: "char \<Rightarrow> char" where
  "lower_char c = (let n = (of_char c :: nat) in if 65 \<le> n \<and> n \<le> 90 then char_of (n + 32) else c)"

text \<open>\<open>s.upper()\<close>, \<open>s.lower()\<close> and \<open>s.strip()\<close>.\<close>

definition py_upper :: "string \<Rightarrow> string" where
  "py_upper s = map upper_char s"

definition py_lower :: "string \<Rightarrow> string" where
  "py_lower s = map lower_char s"

definition py_strip :: "string \<Rightarrow> string" where
  "py_strip s = rev (dropWhile is_space (rev (dropWhile is_space s)))"

text \<open>
  A text of the modelled alphabet: every character is an ASCII code point. The
  theorems about all texts assume it of the text the validators look at.
\<close>

definition is_ascii :: "char \<Rightarrow> bool" where
  "is_ascii c = ((of_char c :: nat) < 128)"

definition ascii_text :: "string \<Rightarrow> bool" where
  "ascii_text s = list_all is_ascii s"

text \<open>
  \<open>s.split(sep)\<close> for a separator that is not empty (the source only splits at the
  literals \<open>```sql\<close>, \<open>```\<close>, \<open>;\<close> and the newline): the pieces between the
  occurrences of \<open>sep\<close>, found from the left without overlap. \<open>acc\<close> holds the
  current piece, reversed.
\<close>

function split_from :: "string \<Rightarrow> string \<Rightarrow> string \<Rightarrow> string list" where
  "split_from sep acc [] = [rev acc]"
| "split_from sep acc (c # cs) =
     (if prefix sep (c # cs) then rev acc # split_from sep [] (drop (length sep - 1) cs)
      else split_from sep (c # acc) cs)"
  by pat_completeness auto
termination
  by (relation "measure (\<lambda>(sep, acc, s). length s)") auto

definition py_split :: "string \<Rightarrow> string \<Rightarrow> string list" where
  "py_split sep s = split_from sep [] s"


text \<open>
  The test \<open>sub in s\<close> of Python is \<^const>\<open>sublist\<close>: \<open>sub\<close> occurs in \<open>s\<close> as a
  contiguous run. \<open>s.startswith(p)\<close> is \<^const>\<open>prefix\<close>.
\<close>

section \<open>The regular expressions of the validators\<close>

text \<open>
  \<open>\b\<close> holds at a position iff exactly one of the characters before and after it
  is a word character; the start and the end of the text count as non-word.
  \<open>prev_word\<close> says whether the character before the position is a word character.
\<close>

definition word_boundary :: "bool \<Rightarrow> string \<Rightarrow> bool" where
  "word_boundary prev_word rest = (prev_word \<noteq> (case rest of [] \<Rightarrow> False | c # _ \<Rightarrow> is_word c))"

text \<open>
  The rest of the pattern \<open>\b f \b\<close> under \<open>re.IGNORECASE\<close> once its first
  boundary is passed: the characters of \<open>f\<close>, each in either letter case, and the
  closing boundary.
\<close>

fun match_rest :: "string \<Rightarrow> bool \<Rightarrow> string \<Rightarrow> bool" where
  "match_rest [] prev_word s = word_boundary prev_word s"
| "match_rest (a # as) prev_word [] = False"
| "match_rest (a # as) prev_word (c # cs) =
     (if lower_char c = lower_char a then match_rest as (is_word c) cs else False)"

definition match_here :: "string \<Rightarrow> bool \<Rightarrow> string \<Rightarrow> bool" where
  "match_here f prev_word s = (if word_boundary prev_word s then match_rest f prev_word s else False)"

text \<open>\<open>re.search(r"\b" + f + r"\b", s, flags=re.IGNORECASE)\<close> finds a match or not.\<close>

fun search_from :: "string \<Rightarrow> bool \<Rightarrow> string \<Rightarrow> bool" where
  "search_from f prev_word [] = match_here f prev_word []"
| "search_from f prev_word (c # cs) =
     (if match_here f prev_word (c # cs) then True else search_from f (is_word c) cs)"

definition re_search_bounded :: "string \<Rightarrow> string \<Rightarrow> bool" where
  "re_search_bounded f s = search_from f False s"

text \<open>
  \<open>re.search(r"^\s*(A|B)\b", s, flags=re.IGNORECASE)\<close> for keywords \<open>A\<close>, \<open>B\<close>:
  after the leading blanks the text goes on with one of the keywords, in any letter
  case, and a word boundary follows it. No keyword starts with a blank, so \<open>\s*\<close>
  can only match all the leading blanks.
\<close>

definition re_search_entry :: "string list \<Rightarrow> string \<Rightarrow> bool" where
  "re_search_entry alts s = list_ex (\<lambda>a. match_rest a False (dropWhile is_space s)) alts"

section \<open>The interface to sqlparse\<close>

text \<open>
  \<open>sqlparse\<close> is a library outside the repository, so the validators take it as a
  parameter. \<open>sqlparse_format lib s\<close> stands for
  \<open>sqlparse.format(s, keyword_case='upper', strip_comments=True)\<close>, and
  \<open>sqlparse_parse lib s\<close> for \<open>sqlparse.parse(s)\<close>: the statements of \<open>s\<close>, each as
  the list of its top-level tokens. Of a token the source reads \<open>is_keyword\<close>,
  \<open>ttype\<close> (\<open>None\<close> for a group such as an identifier or a parenthesis) and \<open>value\<close>.
\<close>

record token =
  tok_is_keyword :: bool
  tok_ttype :: "string option"
  tok_value :: string

record sqlparse =
  sqlparse_format :: "string \<Rightarrow> string"
  sqlparse_parse :: "string \<Rightarrow> token list list"

section \<open>The validators\<close>

datatype error =
    ForbiddenKeyword string
  | OnlySelect
  | OnlySelectOrWith
  | TableNotAllowed string
  | IndexError
  | DatabaseError

text \<open>The list \<open>forbidden\<close> of \<open>rag_engine.py\<close> and \<open>streamlit_app.py\<close>.\<close>

definition forbidden :: "string list" where
  "forbidden = [''INSERT'', ''UPDATE'', ''DELETE'', ''DROP'', ''ALTER'', ''CREATE'',
     ''TRUNCATE'', ''GRANT'', ''REVOKE'']"

text \<open>The list \<open>forbidden\<close> of \<open>main_app.py\<close>, which ends with the separator.\<close>

definition main_app_forbidden :: "string list" where
  "main_app_forbidden = forbidden @ ['';'']"

text \<open>
  The loop \<open>for f in forbidden: if re.search(...): raise ValueError(...)\<close>: the first
  entry of the list that matches, if any.
\<close>

fun first_forbidden :: "string list \<Rightarrow> string \<Rightarrow> string option" where
  "first_forbidden [] parsed = None"
| "first_forbidden (f # fs) parsed =
     (if re_search_bounded f parsed then Some f else first_forbidden fs parsed)"

text \<open>\<open>RAG_Engine._sanitize_sql\<close> of \<open>rag_engine.py\<close>.\<close>

definition rag_engine_sanitize_sql :: "sqlparse \<Rightarrow> string \<Rightarrow> error + string" where
  "rag_engine_sanitize_sql lib sql =
     (let parsed = py_strip (sqlparse_format lib sql) in
      case first_forbidden forbidden parsed of
        Some f \<Rightarrow> Inl (ForbiddenKeyword f)
      | None \<Rightarrow>
          if \<not> re_search_entry [''SELECT''] parsed then Inl OnlySelect
          else Inr parsed)"

text \<open>\<open>sanitize_sql\<close> of \<open>streamlit_app.py\<close>.\<close>

definition streamlit_app_sanitize_sql :: "sqlparse \<Rightarrow> string \<Rightarrow> error + string" where
  "streamlit_app_sanitize_sql lib sql =
     (let parsed = py_strip (sqlparse_format lib sql) in
      case first_forbidden forbidden parsed of
        Some f \<Rightarrow> Inl (ForbiddenKeyword f)
      | None \<Rightarrow>
          if \<not> re_search_entry [''SELECT'', ''WITH''] parsed then Inl OnlySelectOrWith
          else if \<not> sublist ''LIMIT'' (py_upper parsed) then Inr (parsed @ '' LIMIT 1000'')
          else Inr parsed)"

text \<open>
  \<open>sanitize_sql\<close> of \<open>main_app.py\<close>. Its loop over the top-level tokens of the first
  statement carries the flag \<open>from_clause\<close>.
\<close>

definition ALLOWED_TABLES :: "string set" where
  "ALLOWED_TABLES = {''profiles''}"

fun check_tables :: "bool \<Rightarrow> token list \<Rightarrow> error + unit" where
  "check_tables from_clause [] = Inr ()"
| "check_tables from_clause (t # ts) =
     (if tok_is_keyword t \<and> py_upper (tok_value t) = ''FROM'' then check_tables True ts
      else if from_clause \<and> tok_ttype t = None then
        (if py_lower (tok_value t) \<notin> ALLOWED_TABLES then Inl (TableNotAllowed (tok_value t))
         else check_tables False ts)
      else check_tables from_clause ts)"

definition main_app_sanitize_sql :: "sqlparse \<Rightarrow> string \<Rightarrow> error + string" where
  "main_app_sanitize_sql lib sql =
     (let parsed = py_strip (sqlparse_format lib sql) in
      case first_forbidden main_app_forbidden parsed of
        Some f \<Rightarrow> Inl (ForbiddenKeyword f)
      | None \<Rightarrow>
          if \<not> re_search_entry [''SELECT''] parsed then Inl OnlySelect
          else
            (case sqlparse_parse lib parsed of
               [] \<Rightarrow> Inl IndexError
             | stmt # _ \<Rightarrow>
                 (case check_tables False stmt of
                    Inl e \<Rightarrow> Inl e
                  | Inr _ \<Rightarrow>
                      if \<not> sublist ''LIMIT'' (py_upper parsed) then Inr (parsed @ '' LIMIT 1000'')
                      else Inr parsed)))"

section \<open>Extracting the candidate statement\<close>







text \<open>
  Step 3 of the extraction in the words of the specification: the text up to and
  including the first semicolon, or the whole text when there is none. The source
  computes it as \<open>q.split(';')[0] + ';'\<close>; the two are compared below.
\<close>

definition truncate_statement :: "string \<Rightarrow> string" where
  "truncate_statement q =
     (if CHR '';'' \<in> set q then takeWhile (\<lambda>c. c \<noteq> CHR '';'') q @ '';'' else q)"



section \<open>Execution and summary\<close>

text \<open>
  The database is a function from the statement to the rows it returns, or to
  \<open>None\<close> when \<open>pd.read_sql\<close> raises. \<open>sent\<close> lists the statements that reached
  the database so far.

  \<open>RAG_Engine.execute_sql\<close> catches every exception and returns \<open>None\<close>.
\<close>

record 'v dataframe =
  df_columns :: "string list"
  df_rows :: "'v list list"

definition rag_engine_execute_sql ::
  "sqlparse \<Rightarrow> (string \<Rightarrow> 'v dataframe option) \<Rightarrow> string list \<Rightarrow> string
     \<Rightarrow> 'v dataframe option \<times> string list" where
  "rag_engine_execute_sql lib db sent sql =
     (case rag_engine_sanitize_sql lib sql of
        Inl e \<Rightarrow> (None, sent)
      | Inr safe_sql \<Rightarrow> (db safe_sql, sent @ [safe_sql]))"

text \<open>
  \<open>run_sql_fetch\<close> of \<open>streamlit_app.py\<close> lets the exception of the validator
  through to its caller, which reports it.
\<close>

definition streamlit_app_run_sql_fetch ::
  "sqlparse \<Rightarrow> (string \<Rightarrow> 'v dataframe option) \<Rightarrow> string list \<Rightarrow> string
     \<Rightarrow> (error + 'v dataframe) \<times> string list" where
  "streamlit_app_run_sql_fetch lib db sent sql =
     (case streamlit_app_sanitize_sql lib sql of
        Inl e \<Rightarrow> (Inl e, sent)
      | Inr safe_sql \<Rightarrow>
          (case db safe_sql of None \<Rightarrow> Inl DatabaseError | Some d \<Rightarrow> Inr d, sent @ [safe_sql]))"

text \<open>\<open>df.empty\<close>: an axis of the frame has length 0. \<open>df.head()\<close>: its first five rows.\<close>

definition df_empty :: "'v dataframe \<Rightarrow> bool" where
  "df_empty d = (df_columns d = [] \<or> df_rows d = [])"

definition df_head :: "'v dataframe \<Rightarrow> 'v dataframe" where
  "df_head d = d\<lparr>df_rows := take 5 (df_rows d)\<rparr>"

text \<open>
  \<open>RAG_Engine.summarize_results\<close>. The prompt template, \<open>DataFrame.to_string\<close>
  and the completion call are parameters; \<open>calls\<close> lists the prompts sent to the
  completion so far.
\<close>

definition summarize_results ::
  "(string \<Rightarrow> string \<Rightarrow> string) \<Rightarrow> ('v dataframe \<Rightarrow> string) \<Rightarrow> (string \<Rightarrow> string)
     \<Rightarrow> string list \<Rightarrow> string \<Rightarrow> 'v dataframe \<Rightarrow> string \<times> string list" where
  "summarize_results template to_string chat_completion calls query d =
     (if df_empty d then (''The query returned no results.'', calls)
      else
        (let prompt = template query (to_string (df_head d))
         in (py_strip (chat_completion prompt), calls @ [prompt])))"

text \<open>
  The query block of \<open>stream_app.py\<close> from the call of \<open>execute_sql\<close> on: what it
  stores as \<open>last_result\<close>, with the statements sent to the database and the prompts
  sent to the completion.
\<close>

record 'v last_result =
  lr_summary :: string
  lr_sql :: string
  lr_df :: "'v dataframe option"

definition stream_app_query ::
  "sqlparse \<Rightarrow> (string \<Rightarrow> 'v dataframe option) \<Rightarrow> (string \<Rightarrow> string \<Rightarrow> string)
     \<Rightarrow> ('v dataframe \<Rightarrow> string) \<Rightarrow> (string \<Rightarrow> string) \<Rightarrow> string \<Rightarrow> string
     \<Rightarrow> 'v last_result \<times> string list \<times> string list" where
  "stream_app_query lib db template to_string chat_completion query sql_query =
     (let (results_df, sent) = rag_engine_execute_sql lib db [] sql_query in
      case results_df of
        None \<Rightarrow>
          (\<lparr>lr_summary = ''Query executed successfully.'', lr_sql = sql_query, lr_df = None\<rparr>,
           sent, [])
      | Some d \<Rightarrow>
          if df_empty d then
            (\<lparr>lr_summary = ''Query executed successfully.'', lr_sql = sql_query, lr_df = Some d\<rparr>,
             sent, [])
          else
            (let (summary, calls) = summarize_results template to_string chat_completion [] query d
             in (\<lparr>lr_summary = summary, lr_sql = sql_query, lr_df = Some d\<rparr>, sent, calls)))"

section \<open>sqlparse on the statements of the examples\<close>

text \<open>
  The examples below run the validators on concrete statements, so they need the
  values of \<open>sqlparse\<close> there; \<open>example_lib\<close> holds them and is meant for the
  statements of the examples only. \<open>sqlparse.format\<close> with \<open>keyword_case='upper'\<close>
  and \<open>strip_comments=True\<close> returns a single one-line statement unchanged when it
  has no comment, no trailing blank and its keywords are in upper case already. It
  removes a comment that ends the text, together with the blanks before it. It writes
  the statements of a text one after the other, each without the blanks at the end of
  its lines: a blank that follows a semicolon belongs to the statement the semicolon
  ends and is dropped, a newline that follows a semicolon starts the next statement
  and stays. \<open>sqlparse.parse\<close> splits the text into statements the same way and
  groups a table name into an identifier, whose \<open>ttype\<close> is \<open>None\<close>.
\<close>

definition keyword_token :: "string \<Rightarrow> token" where
  "keyword_token v = \<lparr>tok_is_keyword = True, tok_ttype = Some ''Keyword'', tok_value = v\<rparr>"

definition plain_token :: "string \<Rightarrow> string \<Rightarrow> token" where
  "plain_token ty v = \<lparr>tok_is_keyword = False, tok_ttype = Some ty, tok_value = v\<rparr>"

definition group_token :: "string \<Rightarrow> token" where
  "group_token v = \<lparr>tok_is_keyword = False, tok_ttype = None, tok_value = v\<rparr>"

definition blank :: token where
  "blank = plain_token ''Whitespace'' '' ''"

definition select_star_from :: "string \<Rightarrow> token list" where
  "select_star_from table =
     [keyword_token ''SELECT'', blank, plain_token ''Wildcard'' ''*'', blank,
      keyword_token ''FROM'', blank, group_token table]"

text \<open>Two statements, a semicolon and a newline between them.\<close>

definition stacked :: string where
  "stacked = ''SELECT * FROM profiles;'' @ [CHR 0x0A] @ ''SELECT * FROM profiles''"

definition example_format :: "string \<Rightarrow> string" where
  "example_format s =
     (if s = ''SELECT 1 -- DROP'' then ''SELECT 1''
      else if s = ''SELECT 1 -- no limit needed'' then ''SELECT 1''
      else if s = ''SELECT 1; LIMIT 1000'' then ''SELECT 1;LIMIT 1000''
      else if s = ''SELECT * FROM profiles; SELECT * FROM profiles'' then
        ''SELECT * FROM profiles;SELECT * FROM profiles''
      else s)"

definition example_parse :: "string \<Rightarrow> token list list" where
  "example_parse s =
     (if s = ''SELECT 1'' then
        [[keyword_token ''SELECT'', blank, plain_token ''Literal.Number.Integer'' ''1'']]
      else if s = ''SELECT 1;'' then
        [[keyword_token ''SELECT'', blank, plain_token ''Literal.Number.Integer'' ''1'',
          plain_token ''Punctuation'' '';'']]
      else if s = ''SELECT * FROM users;'' then
        [select_star_from ''users'' @ [plain_token ''Punctuation'' '';'']]
      else if s = ''SELECT * FROM profiles'' then [select_star_from ''profiles'']
      else if s = ''SELECT * FROM profiles LIMIT 1000'' then
        [select_star_from ''profiles'' @
         [blank, keyword_token ''LIMIT'', blank, plain_token ''Literal.Number.Integer'' ''1000'']]
      else if s = stacked then
        [select_star_from ''profiles'' @ [plain_token ''Punctuation'' '';''],
         plain_token ''Whitespace.Newline'' [CHR 0x0A] # select_star_from ''profiles'']
      else if s = ''SELECT * FROM profiles JOIN users ON 1 = 1'' then
        [select_star_from ''profiles'' @
         [blank, keyword_token ''JOIN'', blank, group_token ''users'', blank,
          keyword_token ''ON'', blank, group_token ''1 = 1'']]
      else if s = ''SELECT pressure, temperature FROM profiles WHERE latitude BETWEEN -40 AND -10;'' then
        [[keyword_token ''SELECT'', blank, group_token ''pressure, temperature'', blank,
          keyword_token ''FROM'', blank, group_token ''profiles'', blank,
          group_token ''WHERE latitude BETWEEN -40 AND -10;'']]
      else [])"

definition example_lib :: sqlparse where
  "example_lib = \<lparr>sqlparse_format = example_format, sqlparse_parse = example_parse\<rparr>"

section \<open>Tokens of a text\<close>







text \<open>The candidate statement of the limit scenario of the specification.\<close>

definition scenario :: string where
  "scenario = ''SELECT pressure, temperature FROM profiles WHERE latitude BETWEEN -40 AND -10;''"

section \<open>Letter case\<close>

text \<open>
  \<open>upper\<close> and \<open>lower\<close> identify the same characters: two texts have the same upper
  case iff they have the same lower case.
\<close>

lemma of_char_upper_char:
  "(of_char (upper_char c) :: nat) =
     (if 97 \<le> (of_char c :: nat) \<and> (of_char c :: nat) \<le> 122 then of_char c - 32 else of_char c)"
  by (auto simp: upper_char_def Let_def)

lemma of_char_lower_char:
  "(of_char (lower_char c) :: nat) =
     (if 65 \<le> (of_char c :: nat) \<and> (of_char c :: nat) \<le> 90 then of_char c + 32 else of_char c)"
  by (auto simp: lower_char_def Let_def)

lemma case_fold_eq: "upper_char c = upper_char d \<longleftrightarrow> lower_char c = lower_char d"
proof -
  define n m where "n = (of_char c :: nat)" and "m = (of_char d :: nat)"
  have u: "upper_char c = upper_char d \<longleftrightarrow> (of_char (upper_char c) :: nat) = of_char (upper_char d)"
    by simp
  have l: "lower_char c = lower_char d \<longleftrightarrow> (of_char (lower_char c) :: nat) = of_char (lower_char d)"
    by simp
  have "((if 97 \<le> n \<and> n \<le> 122 then n - 32 else n) = (if 97 \<le> m \<and> m \<le> 122 then m - 32 else m))
     \<longleftrightarrow> ((if 65 \<le> n \<and> n \<le> 90 then n + 32 else n) = (if 65 \<le> m \<and> m \<le> 90 then m + 32 else m))"
    by (simp split: if_splits) arith
  then show ?thesis
    unfolding u l of_char_upper_char of_char_lower_char n_def m_def .
qed

lemma map_case_fold_eq:
  "map upper_char xs = map upper_char ys \<longleftrightarrow> map lower_char xs = map lower_char ys"
proof (induction xs arbitrary: ys)
  case Nil
  then show ?case by auto
next
  case (Cons x xs)
  then show ?case by (cases ys) (auto simp: case_fold_eq)
qed

section \<open>The limit clause\<close>

lemma limit_upper: "py_upper ''limit'' = ''LIMIT''"
  by code_simp

lemma limit_lower: "py_lower ''limit'' = ''limit''"
  by code_simp

lemma fold_limit: "py_upper mid = ''LIMIT'' \<longleftrightarrow> py_lower mid = ''limit''"
proof -
  have "py_upper mid = ''LIMIT'' \<longleftrightarrow> map upper_char mid = map upper_char ''limit''"
    unfolding limit_upper [symmetric] py_upper_def ..
  also have "\<dots> \<longleftrightarrow> map lower_char mid = map lower_char ''limit''"
    by (rule map_case_fold_eq)
  also have "\<dots> \<longleftrightarrow> py_lower mid = ''limit''"
    using limit_lower unfolding py_lower_def by presburger
  finally show ?thesis .
qed

lemma sublist_limit_iff:
  "sublist ''LIMIT'' (py_upper s) \<longleftrightarrow>
     (\<exists>pre mid post. s = pre @ mid @ post \<and> py_lower mid = ''limit'')"
proof
  assume "sublist ''LIMIT'' (py_upper s)"
  then have "\<exists>mid. sublist mid s \<and> ''LIMIT'' = map upper_char mid"
    unfolding py_upper_def by (rule sublist_map_rightE)
  then obtain mid where m1: "sublist mid s" and m2: "''LIMIT'' = py_upper mid"
    unfolding py_upper_def by (elim exE conjE)
  from m2 have "py_upper mid = ''LIMIT''" by (rule sym)
  then have l: "py_lower mid = ''limit''"
    by (rule fold_limit [THEN iffD1])
  from m1 obtain pre post where "s = pre @ mid @ post"
    unfolding sublist_def by (elim exE)
  with l show "\<exists>pre mid post. s = pre @ mid @ post \<and> py_lower mid = ''limit''"
    by (intro exI conjI)
next
  assume "\<exists>pre mid post. s = pre @ mid @ post \<and> py_lower mid = ''limit''"
  then obtain pre mid post where s: "s = pre @ mid @ post" and l: "py_lower mid = ''limit''"
    by (elim exE conjE)
  from l have u: "py_upper mid = ''LIMIT''"
    by (rule fold_limit [THEN iffD2])
  have "py_upper s = py_upper pre @ py_upper mid @ py_upper post"
    unfolding s py_upper_def by (simp only: map_append)
  then have "py_upper s = py_upper pre @ ''LIMIT'' @ py_upper post"
    unfolding u .
  then show "sublist ''LIMIT'' (py_upper s)"
    unfolding sublist_def by (intro exI)
qed

lemma streamlit_app_accepts:
  assumes "streamlit_app_sanitize_sql lib sql = Inr out"
  shows "out = (if sublist ''LIMIT'' (py_upper (py_strip (sqlparse_format lib sql)))
                then py_strip (sqlparse_format lib sql)
                else py_strip (sqlparse_format lib sql) @ '' LIMIT 1000'')"
  using assms unfolding streamlit_app_sanitize_sql_def Let_def
  by (simp split: option.splits if_splits)

lemma main_app_accepts:
  assumes "main_app_sanitize_sql lib sql = Inr out"
  shows "out = (if sublist ''LIMIT'' (py_upper (py_strip (sqlparse_format lib sql)))
                then py_strip (sqlparse_format lib sql)
                else py_strip (sqlparse_format lib sql) @ '' LIMIT 1000'')"
  using assms unfolding main_app_sanitize_sql_def Let_def
  by (simp split: option.splits if_splits list.splits sum.splits)

section \<open>The summary of an empty result\<close>

text \<open>
  Claim C8. For every question and every empty result set, \<open>summarize_results\<close>
  returns exactly the text \<open>The query returned no results.\<close>, and the completion
  is not called: the list of prompts sent to it is unchanged, whatever the completion
  would have answered.
\<close>

theorem summarize_results_empty:
  assumes "df_empty d"
  shows "summarize_results template to_string chat_completion calls query d =
    (''The query returned no results.'', calls)"
  using assms unfolding summarize_results_def by simp

theorem summarize_results_empty_witness:
  "df_empty \<lparr>df_columns = [''pressure''], df_rows = ([] :: int list list)\<rparr> \<and>
   summarize_results (\<lambda>q h. q @ h) (\<lambda>d. []) (\<lambda>p. ''a summary'') [] ''deepest profile''
     \<lparr>df_columns = [''pressure''], df_rows = ([] :: int list list)\<rparr> =
    (''The query returned no results.'', [])"
proof (rule conjI)
  show e: "df_empty \<lparr>df_columns = [''pressure''], df_rows = ([] :: int list list)\<rparr>"
    unfolding df_empty_def by simp
  then show "summarize_results (\<lambda>q h. q @ h) (\<lambda>d. []) (\<lambda>p. ''a summary'') [] ''deepest profile''
     \<lparr>df_columns = [''pressure''], df_rows = ([] :: int list list)\<rparr> =
    (''The query returned no results.'', [])"
    by (rule summarize_results_empty)
qed

section \<open>A rejected statement in the pipeline\<close>

lemma rag_drop_table:
  "rag_engine_sanitize_sql example_lib ''DROP TABLE profiles;'' = Inl (ForbiddenKeyword ''DROP'')"
  by code_simp

lemma streamlit_drop_table:
  "streamlit_app_sanitize_sql example_lib ''DROP TABLE profiles;'' = Inl (ForbiddenKeyword ''DROP'')"
  by code_simp

text \<open>
  Claim C6. The claim asks that a rejection by the validator reaches the caller as an
  error. \<open>RAG_Engine.execute_sql\<close> catches the exception and returns \<open>None\<close>:
  for the candidate \<open>DROP TABLE profiles;\<close> nothing is sent to the database, the
  result is \<open>None\<close>, and \<open>stream_app.py\<close> stores the summary
  \<open>Query executed successfully.\<close> for it. \<open>run_sql_fetch\<close> of
  \<open>streamlit_app.py\<close> passes the error of the same candidate on to its caller.
\<close>

theorem rejection_returns_none:
  "rag_engine_execute_sql example_lib db sent ''DROP TABLE profiles;'' = (None, sent) \<and>
   stream_app_query example_lib db template to_string chat_completion query ''DROP TABLE profiles;'' =
     (\<lparr>lr_summary = ''Query executed successfully.'', lr_sql = ''DROP TABLE profiles;'', lr_df = None\<rparr>,
      [], []) \<and>
   streamlit_app_run_sql_fetch example_lib db sent ''DROP TABLE profiles;'' =
     (Inl (ForbiddenKeyword ''DROP''), sent)"
  unfolding stream_app_query_def rag_engine_execute_sql_def streamlit_app_run_sql_fetch_def
    rag_drop_table streamlit_drop_table
  by simp

section \<open>The table allow-list\<close>

lemma rag_users: "rag_engine_sanitize_sql example_lib ''SELECT * FROM users;'' = Inr ''SELECT * FROM users;''"
  by code_simp
lemma streamlit_users: "streamlit_app_sanitize_sql example_lib ''SELECT * FROM users;'' = Inr ''SELECT * FROM users; LIMIT 1000''"
  by code_simp
lemma main_users: "main_app_sanitize_sql example_lib ''SELECT * FROM users;'' = Inl (TableNotAllowed ''users'')"
  by code_simp
lemma main_join: "main_app_sanitize_sql example_lib ''SELECT * FROM profiles JOIN users ON 1 = 1'' =
   Inr ''SELECT * FROM profiles JOIN users ON 1 = 1 LIMIT 1000''"
  by code_simp

text \<open>
  Claim C1. The claim asks that a candidate naming a table outside the allow-list is
  rejected with an error that names the table. Only \<open>sanitize_sql\<close> of
  \<open>main_app.py\<close> checks tables, and only the group that follows a top-level
  \<open>FROM\<close>: \<open>RAG_Engine._sanitize_sql\<close> and \<open>sanitize_sql\<close> of
  \<open>streamlit_app.py\<close> accept \<open>SELECT * FROM users;\<close>, which \<open>main_app.py\<close>
  rejects naming \<open>users\<close>, and \<open>main_app.py\<close> accepts a statement that joins
  \<open>users\<close>.
\<close>

theorem table_check_missing:
  "rag_engine_sanitize_sql example_lib ''SELECT * FROM users;'' = Inr ''SELECT * FROM users;'' \<and>
   streamlit_app_sanitize_sql example_lib ''SELECT * FROM users;'' = Inr ''SELECT * FROM users; LIMIT 1000'' \<and>
   main_app_sanitize_sql example_lib ''SELECT * FROM users;'' = Inl (TableNotAllowed ''users'') \<and>
   main_app_sanitize_sql example_lib ''SELECT * FROM profiles JOIN users ON 1 = 1'' =
     Inr ''SELECT * FROM profiles JOIN users ON 1 = 1 LIMIT 1000''"
  by (intro conjI rag_users streamlit_users main_users main_join)

section \<open>The limit scenario\<close>

lemma main_scenario: "main_app_sanitize_sql example_lib scenario = Inr (scenario @ '' LIMIT 1000'')"
  by code_simp
lemma streamlit_scenario: "streamlit_app_sanitize_sql example_lib scenario = Inr (scenario @ '' LIMIT 1000'')"
  by code_simp
lemma rag_scenario: "rag_engine_sanitize_sql example_lib scenario = Inr scenario"
  by code_simp


text \<open>
  Claim C3. The claim asks that the scenario candidate validates to the statement with
  \<open>LIMIT 1000\<close> before its semicolon. \<open>main_app.py\<close> and \<open>streamlit_app.py\<close>
  append the cap after the semicolon, and \<open>RAG_Engine._sanitize_sql\<close> adds no cap
  at all.
\<close>

theorem limit_after_terminator:
  "main_app_sanitize_sql example_lib
     ''SELECT pressure, temperature FROM profiles WHERE latitude BETWEEN -40 AND -10;'' =
     Inr ''SELECT pressure, temperature FROM profiles WHERE latitude BETWEEN -40 AND -10; LIMIT 1000'' \<and>
   streamlit_app_sanitize_sql example_lib
     ''SELECT pressure, temperature FROM profiles WHERE latitude BETWEEN -40 AND -10;'' =
     Inr ''SELECT pressure, temperature FROM profiles WHERE latitude BETWEEN -40 AND -10; LIMIT 1000'' \<and>
   rag_engine_sanitize_sql example_lib
     ''SELECT pressure, temperature FROM profiles WHERE latitude BETWEEN -40 AND -10;'' =
     Inr ''SELECT pressure, temperature FROM profiles WHERE latitude BETWEEN -40 AND -10;''"
  using main_scenario streamlit_scenario rag_scenario unfolding scenario_def by simp

section \<open>The limit test\<close>

lemma main_profiles:
  "main_app_sanitize_sql example_lib ''SELECT * FROM profiles'' = Inr ''SELECT * FROM profiles LIMIT 1000''"
  by code_simp

lemma streamlit_profiles:
  "streamlit_app_sanitize_sql example_lib ''SELECT * FROM profiles'' = Inr ''SELECT * FROM profiles LIMIT 1000''"
  by code_simp

lemma main_profiles_limit:
  "main_app_sanitize_sql example_lib ''SELECT * FROM profiles LIMIT 1000'' =
     Inr ''SELECT * FROM profiles LIMIT 1000''"
  by code_simp

lemma streamlit_profiles_limit:
  "streamlit_app_sanitize_sql example_lib ''SELECT * FROM profiles LIMIT 1000'' =
     Inr ''SELECT * FROM profiles LIMIT 1000''"
  by code_simp

lemma ascii_profiles: "ascii_text (py_strip (sqlparse_format example_lib ''SELECT * FROM profiles''))"
  by code_simp

lemma ascii_profiles_limit:
  "ascii_text (py_strip (sqlparse_format example_lib ''SELECT * FROM profiles LIMIT 1000''))"
  by code_simp

lemma limit_in_comment: "sublist ''limit'' ''SELECT 1 -- no limit needed''"
  by code_simp

lemma streamlit_comment:
  "streamlit_app_sanitize_sql example_lib ''SELECT 1 -- no limit needed'' = Inr ''SELECT 1 LIMIT 1000''"
  by code_simp

lemma main_comment:
  "main_app_sanitize_sql example_lib ''SELECT 1 -- no limit needed'' = Inr ''SELECT 1 LIMIT 1000''"
  by code_simp

text \<open>
  Claim C10, as stated, fails where the letters \<open>limit\<close> stand in a comment of the
  candidate: the validators of \<open>main_app.py\<close> and \<open>streamlit_app.py\<close> test the
  text that \<open>sqlparse.format\<close> returns, which has no comments, so the candidate
  \<open>SELECT 1 -- no limit needed\<close> contains the letters and still gets the cap.
\<close>

theorem limit_in_comment_ignored:
  "sublist ''limit'' ''SELECT 1 -- no limit needed'' \<and>
   streamlit_app_sanitize_sql example_lib ''SELECT 1 -- no limit needed'' = Inr ''SELECT 1 LIMIT 1000'' \<and>
   main_app_sanitize_sql example_lib ''SELECT 1 -- no limit needed'' = Inr ''SELECT 1 LIMIT 1000''"
  by (intro conjI limit_in_comment streamlit_comment main_comment)

text \<open>
  Claim C10, amended. The validators of \<open>main_app.py\<close> and \<open>streamlit_app.py\<close>
  decide by a substring test on the formatted and stripped text whether a limit is
  present. For ASCII text: a statement they accept is returned as formatted and
  stripped when that text contains the letters \<open>limit\<close> in a row, in any letter
  case and at any place, and with \<open> LIMIT 1000\<close> appended at its very end
  otherwise, that is after a closing semicolon when there is one.
\<close>

theorem limit_test_on_formatted_text:
  assumes "ascii_text (py_strip (sqlparse_format lib sql))"
  shows
    "(main_app_sanitize_sql lib sql = Inr out \<longrightarrow>
        out =
          (if \<exists>pre mid post. py_strip (sqlparse_format lib sql) = pre @ mid @ post \<and> py_lower mid = ''limit''
           then py_strip (sqlparse_format lib sql)
           else py_strip (sqlparse_format lib sql) @ '' LIMIT 1000'')) \<and>
     (streamlit_app_sanitize_sql lib sql = Inr out \<longrightarrow>
        out =
          (if \<exists>pre mid post. py_strip (sqlparse_format lib sql) = pre @ mid @ post \<and> py_lower mid = ''limit''
           then py_strip (sqlparse_format lib sql)
           else py_strip (sqlparse_format lib sql) @ '' LIMIT 1000''))"
proof (intro conjI impI)
  assume "main_app_sanitize_sql lib sql = Inr out"
  then show "out =
          (if \<exists>pre mid post. py_strip (sqlparse_format lib sql) = pre @ mid @ post \<and> py_lower mid = ''limit''
           then py_strip (sqlparse_format lib sql)
           else py_strip (sqlparse_format lib sql) @ '' LIMIT 1000'')"
    unfolding sublist_limit_iff [symmetric] by (rule main_app_accepts)
next
  assume "streamlit_app_sanitize_sql lib sql = Inr out"
  then show "out =
          (if \<exists>pre mid post. py_strip (sqlparse_format lib sql) = pre @ mid @ post \<and> py_lower mid = ''limit''
           then py_strip (sqlparse_format lib sql)
           else py_strip (sqlparse_format lib sql) @ '' LIMIT 1000'')"
    unfolding sublist_limit_iff [symmetric] by (rule streamlit_app_accepts)
qed

theorem limit_test_on_formatted_text_witness:
  "(ascii_text (py_strip (sqlparse_format example_lib ''SELECT * FROM profiles'')) \<and>
    main_app_sanitize_sql example_lib ''SELECT * FROM profiles'' = Inr ''SELECT * FROM profiles LIMIT 1000'' \<and>
    streamlit_app_sanitize_sql example_lib ''SELECT * FROM profiles'' = Inr ''SELECT * FROM profiles LIMIT 1000'' \<and>
    ''SELECT * FROM profiles LIMIT 1000'' =
      (if \<exists>pre mid post. py_strip (sqlparse_format example_lib ''SELECT * FROM profiles'') = pre @ mid @ post \<and>
            py_lower mid = ''limit''
       then py_strip (sqlparse_format example_lib ''SELECT * FROM profiles'')
       else py_strip (sqlparse_format example_lib ''SELECT * FROM profiles'') @ '' LIMIT 1000'')) \<and>
   (ascii_text (py_strip (sqlparse_format example_lib ''SELECT * FROM profiles LIMIT 1000'')) \<and>
    main_app_sanitize_sql example_lib ''SELECT * FROM profiles LIMIT 1000'' =
      Inr ''SELECT * FROM profiles LIMIT 1000'' \<and>
    streamlit_app_sanitize_sql example_lib ''SELECT * FROM profiles LIMIT 1000'' =
      Inr ''SELECT * FROM profiles LIMIT 1000'' \<and>
    ''SELECT * FROM profiles LIMIT 1000'' =
      (if \<exists>pre mid post. py_strip (sqlparse_format example_lib ''SELECT * FROM profiles LIMIT 1000'') =
              pre @ mid @ post \<and> py_lower mid = ''limit''
       then py_strip (sqlparse_format example_lib ''SELECT * FROM profiles LIMIT 1000'')
       else py_strip (sqlparse_format example_lib ''SELECT * FROM profiles LIMIT 1000'') @ '' LIMIT 1000''))"
proof -
  note t1 = limit_test_on_formatted_text [OF ascii_profiles, where out = "''SELECT * FROM profiles LIMIT 1000''"]
  note t2 = limit_test_on_formatted_text [OF ascii_profiles_limit, where out = "''SELECT * FROM profiles LIMIT 1000''"]
  show ?thesis
    by (intro conjI ascii_profiles ascii_profiles_limit main_profiles streamlit_profiles
        main_profiles_limit streamlit_profiles_limit
        mp [OF conjunct1 [OF t1] main_profiles] mp [OF conjunct1 [OF t2] main_profiles_limit])
qed

section \<open>Stacked statements\<close>

lemma main_stacked: "main_app_sanitize_sql example_lib stacked = Inr (stacked @ '' LIMIT 1000'')"
  by code_simp

lemma rag_stacked: "rag_engine_sanitize_sql example_lib stacked = Inr stacked"
  by code_simp

lemma streamlit_stacked: "streamlit_app_sanitize_sql example_lib stacked = Inr (stacked @ '' LIMIT 1000'')"
  by code_simp

lemma main_stacked_blank:
  "main_app_sanitize_sql example_lib ''SELECT * FROM profiles; SELECT * FROM profiles'' =
     Inl (ForbiddenKeyword '';'')"
  by code_simp

text \<open>
  Claim C4. The claim asks that two \<open>SELECT\<close> statements joined by a semicolon are
  rejected. \<open>main_app.py\<close> lists the semicolon among the forbidden words, but
  searches it between two word boundaries, so it only finds a semicolon that stands
  directly between two word characters. With a blank after the semicolon it does
  reject, because \<open>sqlparse.format\<close> drops that blank. With a newline after the
  semicolon the newline stays, nothing matches and the stacked statements are
  accepted, as they are by the other two validators, which have no such check. Each
  half alone is accepted too.
\<close>

theorem stacked_statements_pass:
  "main_app_sanitize_sql example_lib
     (''SELECT * FROM profiles;'' @ [CHR 0x0A] @ ''SELECT * FROM profiles'') =
     Inr (''SELECT * FROM profiles;'' @ [CHR 0x0A] @ ''SELECT * FROM profiles LIMIT 1000'') \<and>
   rag_engine_sanitize_sql example_lib
     (''SELECT * FROM profiles;'' @ [CHR 0x0A] @ ''SELECT * FROM profiles'') =
     Inr (''SELECT * FROM profiles;'' @ [CHR 0x0A] @ ''SELECT * FROM profiles'') \<and>
   streamlit_app_sanitize_sql example_lib
     (''SELECT * FROM profiles;'' @ [CHR 0x0A] @ ''SELECT * FROM profiles'') =
     Inr (''SELECT * FROM profiles;'' @ [CHR 0x0A] @ ''SELECT * FROM profiles LIMIT 1000'') \<and>
   main_app_sanitize_sql example_lib ''SELECT * FROM profiles'' = Inr ''SELECT * FROM profiles LIMIT 1000'' \<and>
   main_app_sanitize_sql example_lib ''SELECT * FROM profiles; SELECT * FROM profiles'' =
     Inl (ForbiddenKeyword '';'')"
  using main_stacked rag_stacked streamlit_stacked main_profiles main_stacked_blank
  unfolding stacked_def by simp

section \<open>Validating twice\<close>

lemma main_select_1: "main_app_sanitize_sql example_lib ''SELECT 1;'' = Inr ''SELECT 1; LIMIT 1000''"
  by code_simp

lemma streamlit_select_1: "streamlit_app_sanitize_sql example_lib ''SELECT 1;'' = Inr ''SELECT 1; LIMIT 1000''"
  by code_simp

lemma main_select_1_again:
  "main_app_sanitize_sql example_lib ''SELECT 1; LIMIT 1000'' = Inl (ForbiddenKeyword '';'')"
  by code_simp

lemma streamlit_select_1_again:
  "streamlit_app_sanitize_sql example_lib ''SELECT 1; LIMIT 1000'' = Inr ''SELECT 1;LIMIT 1000''"
  by code_simp

text \<open>
  Claim C9. The claim asks that validating an accepted statement again returns it
  unchanged. The candidate \<open>SELECT 1;\<close> is accepted as \<open>SELECT 1; LIMIT 1000\<close>,
  the cap standing after the semicolon. Formatting that text again drops the blank
  after the semicolon: \<open>main_app.py\<close> then finds the semicolon between two word
  characters and rejects its own result, and \<open>streamlit_app.py\<close> returns a
  different text.
\<close>

theorem revalidation_differs:
  "main_app_sanitize_sql example_lib ''SELECT 1;'' = Inr ''SELECT 1; LIMIT 1000'' \<and>
   main_app_sanitize_sql example_lib ''SELECT 1; LIMIT 1000'' = Inl (ForbiddenKeyword '';'') \<and>
   streamlit_app_sanitize_sql example_lib ''SELECT 1;'' = Inr ''SELECT 1; LIMIT 1000'' \<and>
   streamlit_app_sanitize_sql example_lib ''SELECT 1; LIMIT 1000'' = Inr ''SELECT 1;LIMIT 1000''"
  by (intro conjI main_select_1 main_select_1_again streamlit_select_1 streamlit_select_1_again)

section \<open>Whole tokens and the first token\<close>





lemma py_lower_Nil_iff: "py_lower xs = py_lower ys \<Longrightarrow> xs = [] \<longleftrightarrow> ys = []"
  by (auto simp: py_lower_def)















































section \<open>The extraction of the candidate statement\<close>




lemma split_from_skip:
  assumes "b \<notin> set pre"
  shows "split_from (b # sep) acc (pre @ w) = split_from (b # sep) (rev pre @ acc) w"
  using assms
proof (induction pre arbitrary: acc)
  case Nil
  then show ?case by simp
next
  case (Cons c pre)
  then have "c \<noteq> b" "b \<notin> set pre" by auto
  then show ?case using Cons.IH [of "c # acc"] by simp
qed


lemma split_from_none:
  assumes "b \<notin> set s"
  shows "split_from (b # sep) acc s = [rev acc @ s]"
  using split_from_skip [OF assms, of sep acc "[]"] by simp


lemma py_split_none:
  assumes "b \<notin> set s"
  shows "py_split (b # sep) s = [s]"
  unfolding py_split_def split_from_none [OF assms] by simp































lemma truncate_one_terminator:
  assumes "CHR '';'' \<in> set (truncate_statement q)"
  shows "\<exists>t. truncate_statement q = t @ '';'' \<and> CHR '';'' \<notin> set t \<and> prefix t q"
proof (cases "CHR '';'' \<in> set q")
  case False
  then show ?thesis using assms by (simp add: truncate_statement_def)
next
  case True
  let ?t = "takeWhile (\<lambda>c. c \<noteq> CHR '';'') q"
  have "CHR '';'' \<notin> set ?t" by (auto dest: set_takeWhileD)
  moreover have "prefix ?t q" by (rule takeWhile_is_prefix)
  ultimately show ?thesis using True by (auto simp: truncate_statement_def)
qed







lemma bracket_not_newline: "CHR ''['' \<noteq> CHR 0x0A"
  by simp




















end
